theory Spec2Isabelle
  imports Complex_Main
begin

section \<open>JavaScript values\<close>

text \<open>
  The agents of \<^verbatim>\<open>src/dist/index.js\<close> inspect arbitrary JavaScript values. A number is an
  IEEE double; only its identity matters here, so it is a real (the two zeros are equal
  under every comparison this program makes), an infinity or NaN.
  An object is its own enumerable string-keyed properties (in enumeration order) and the
  properties it reaches through its prototype chain only (nearest first). Arrays are dense
  and carry the standard prototype. A function value is a builtin method, known by its
  name; property lookup on it sees what it inherits. Non-enumerable own
  properties (other than an array's \<^verbatim>\<open>length\<close>), accessors (other than
  \<^verbatim>\<open>__proto__\<close>), symbols and object identity are outside the model.
\<close>

datatype number = NaN | PosInfinity | NegInfinity | Finite real

datatype prim = Undefined | Null | Bool bool | Num number | Str string

datatype jsval =
    JPrim prim
  | JFunction string
  | JArray "jsval list"
  | JObject "(string \<times> jsval) list" "(string \<times> jsval) list"

datatype error = TypeError string | Error jsval

text \<open>
  \<^verbatim>\<open>Object.prototype\<close> and \<^verbatim>\<open>Array.prototype\<close> (ECMAScript 2023) as seen through
  property lookup on an object that inherits from them. Their methods are function values;
  \<^verbatim>\<open>__proto__\<close> reads the prototype itself, which for the lookups of this program is an
  object, respectively an empty array, with these properties.
\<close>

definition Object_prototype_methods :: "(string \<times> jsval) list" where
  "Object_prototype_methods = map (\<lambda>n. (n, JFunction n))
     [''constructor'', ''hasOwnProperty'', ''isPrototypeOf'', ''propertyIsEnumerable'',
      ''toLocaleString'', ''toString'', ''valueOf'', ''__defineGetter__'',
      ''__defineSetter__'', ''__lookupGetter__'', ''__lookupSetter__'']"

definition Object_prototype :: "(string \<times> jsval) list" where
  "Object_prototype = Object_prototype_methods
     @ [(''__proto__'', JObject [] (Object_prototype_methods @ [(''__proto__'', JPrim Null)]))]"

definition Array_prototype :: "(string \<times> jsval) list" where
  "Array_prototype = map (\<lambda>n. (n, JFunction n))
     [''at'', ''concat'', ''copyWithin'', ''entries'', ''every'', ''fill'', ''filter'',
      ''find'', ''findIndex'', ''findLast'', ''findLastIndex'', ''flat'', ''flatMap'',
      ''forEach'', ''includes'', ''indexOf'', ''join'', ''keys'', ''lastIndexOf'', ''map'',
      ''pop'', ''push'', ''reduce'', ''reduceRight'', ''reverse'', ''shift'', ''slice'',
      ''some'', ''sort'', ''splice'', ''toReversed'', ''toSorted'', ''toSpliced'',
      ''unshift'', ''values'', ''with'', ''constructor'', ''toLocaleString'', ''toString'']
     @ [(''__proto__'', JArray [])] @ Object_prototype"

text \<open>\<^verbatim>\<open>Function.prototype\<close>, itself a function, as seen from a function value.\<close>

definition Function_prototype :: "(string \<times> jsval) list" where
  "Function_prototype = map (\<lambda>n. (n, JFunction n))
     [''apply'', ''bind'', ''call'', ''constructor'', ''toString'']
     @ [(''__proto__'', JFunction [])] @ Object_prototype"

text \<open>
  An object literal, or an object made by \<^verbatim>\<open>JSON.parse\<close> or lodash: its prototype is
  \<^verbatim>\<open>Object.prototype\<close>.
\<close>

definition plain :: "(string \<times> jsval) list \<Rightarrow> jsval" where
  "plain props = JObject props Object_prototype"

fun typeof :: "jsval \<Rightarrow> string" where
  "typeof (JPrim Undefined) = ''undefined''"
| "typeof (JPrim Null) = ''object''"
| "typeof (JPrim (Bool _)) = ''boolean''"
| "typeof (JPrim (Num _)) = ''number''"
| "typeof (JPrim (Str _)) = ''string''"
| "typeof (JFunction _) = ''function''"
| "typeof (JArray _) = ''object''"
| "typeof (JObject _ _) = ''object''"

fun isArray :: "jsval \<Rightarrow> bool" where
  "isArray (JArray _) = True"
| "isArray _ = False"

text \<open>The decimal spelling of an array index, as a property key.\<close>

definition digits :: string where
  "digits = ''0123456789''"

fun decimal :: "nat \<Rightarrow> string" where
  "decimal n = (if n < 10 then [digits ! n]
                else decimal (n div 10) @ [digits ! (n mod 10)])"

declare decimal.simps [simp del]

text \<open>The own enumerable entries of an object, in enumeration order.\<close>

fun own_entries :: "jsval \<Rightarrow> (string \<times> jsval) list" where
  "own_entries (JArray xs) = zip (map decimal [0..<length xs]) xs"
| "own_entries (JObject own inh) = own"
| "own_entries _ = []"

text \<open>Everything \<^verbatim>\<open>in\<close> and \<^verbatim>\<open>o[k]\<close> can see: own properties first, then inherited ones.\<close>

fun visible :: "jsval \<Rightarrow> (string \<times> jsval) list" where
  "visible (JArray xs) =
     own_entries (JArray xs) @ [(''length'', JPrim (Num (Finite (real (length xs)))))]
       @ Array_prototype"
| "visible (JObject own inh) = own @ inh"
| "visible (JFunction f) = Function_prototype"
| "visible (JPrim p) = []"

text \<open>\<^verbatim>\<open>o[k]\<close> on an object: the value of a missing property is \<^verbatim>\<open>undefined\<close>.\<close>

definition get :: "jsval \<Rightarrow> string \<Rightarrow> jsval" where
  "get data property = (case map_of (visible data) property of
                          None \<Rightarrow> JPrim Undefined | Some x \<Rightarrow> x)"

text \<open>\<^verbatim>\<open>hasOwnProperty\<close>, for comparison with \<^verbatim>\<open>in\<close>.\<close>

definition hasOwn :: "jsval \<Rightarrow> string \<Rightarrow> bool" where
  "hasOwn data property =
     (property \<in> fst ` set (own_entries data) \<or> (isArray data \<and> property = ''length''))"

section \<open>Base and utility functions\<close>

text \<open>
  \<^verbatim>\<open>function hasProperty(data, property) { return property in data; }\<close>
  The operator \<^verbatim>\<open>in\<close> raises a TypeError when its right operand is a primitive.
\<close>

fun hasProperty :: "jsval \<Rightarrow> string \<Rightarrow> error + bool" where
  "hasProperty (JPrim p) property =
     Inl (TypeError ''Cannot use in operator to search for a key in a primitive'')"
| "hasProperty data property = Inr (property \<in> fst ` set (visible data))"

text \<open>\<^verbatim>\<open>Array.prototype.includes\<close> compares with SameValueZero: NaN matches NaN.\<close>

definition sameValueZero :: "prim \<Rightarrow> prim \<Rightarrow> bool" where
  "sameValueZero x y = (x = y)"

text \<open>Strict equality \<^verbatim>\<open>===\<close> on primitives: NaN is not equal to itself.\<close>

definition strictEquals :: "prim \<Rightarrow> prim \<Rightarrow> bool" where
  "strictEquals x y = (x = y \<and> x \<noteq> Num NaN)"

fun includes_js :: "prim list \<Rightarrow> jsval \<Rightarrow> bool" where
  "includes_js vs (JPrim p) = list_ex (\<lambda>x. sameValueZero x p) vs"
| "includes_js vs _ = False"

definition Object_values :: "(string \<times> 'a) list \<Rightarrow> 'a list" where
  "Object_values obj = map snd obj"

definition Object_keys :: "(string \<times> 'a) list \<Rightarrow> string list" where
  "Object_keys obj = map fst obj"

section \<open>Agents\<close>

text \<open>
  One constructor per class. An enum object holds primitive values. The shape of an
  \<^verbatim>\<open>ObjectAgent\<close> is a JavaScript object too: its own entries are agents, and the
  second field lists the names it inherits from its prototype chain (for an object
  literal, those of \<^verbatim>\<open>Object.prototype\<close>), whose values are not agents.
\<close>

datatype agent =
    StringAgent
  | NumberAgent
  | BooleanAgent
  | NullAgent
  | UnionAgent agent agent
  | ArrayAgent agent
  | EnumAgent "(string \<times> prim) list"
  | ObjectAgent "(string \<times> agent) list" "string list"
  | UnsnakeAgent agent
  | ConversionAgent agent "jsval \<Rightarrow> jsval" agent

definition objectAgent :: "(string \<times> agent) list \<Rightarrow> agent" where
  "objectAgent shapeObj = ObjectAgent shapeObj (Object_keys Object_prototype)"

definition nullableAgent :: "agent \<Rightarrow> agent" where
  "nullableAgent otherAgent = UnionAgent NullAgent otherAgent"

text \<open>
  \<^verbatim>\<open>verifyStamp\<close>, with \<^verbatim>\<open>Array.prototype.every\<close> over the items and over
  \<^verbatim>\<open>Object.entries(this.objShape)\<close> written as the loops \<open>everyItem\<close> and \<open>everyEntry\<close>.
\<close>

fun verifyStamp :: "agent \<Rightarrow> jsval \<Rightarrow> error + bool"
  and everyItem :: "agent \<Rightarrow> jsval list \<Rightarrow> error + bool"
  and everyEntry :: "(string \<times> agent) list \<Rightarrow> jsval \<Rightarrow> error + bool" where
  "verifyStamp StringAgent requested = Inr (typeof requested = ''string'')"
| "verifyStamp NumberAgent requested = Inr (typeof requested = ''number'')"
| "verifyStamp BooleanAgent requested = Inr (typeof requested = ''boolean'')"
| "verifyStamp NullAgent requested = Inr (requested = JPrim Null)"
| "verifyStamp (UnionAgent u v) requested =
     (case verifyStamp u requested of
        Inl e \<Rightarrow> Inl e
      | Inr b \<Rightarrow> if b then Inr True else verifyStamp v requested)"
| "verifyStamp (ArrayAgent itemAgent) requested =
     (case requested of JArray xs \<Rightarrow> everyItem itemAgent xs | _ \<Rightarrow> Inr False)"
| "verifyStamp (EnumAgent enumObj) requested =
     Inr (includes_js (Object_values enumObj) requested)"
| "verifyStamp (ObjectAgent objShape inherited) requested =
     (if typeof requested \<noteq> ''object'' \<or> requested = JPrim Null then Inr False
      else everyEntry objShape requested)"
| "verifyStamp (UnsnakeAgent objAgent) requested = verifyStamp objAgent requested"
| "verifyStamp (ConversionAgent inputAgent converter outputAgent) requested =
     verifyStamp outputAgent requested"
| "everyItem itemAgent [] = Inr True"
| "everyItem itemAgent (x # xs) =
     (case verifyStamp itemAgent x of
        Inl e \<Rightarrow> Inl e
      | Inr b \<Rightarrow> if b then everyItem itemAgent xs else Inr False)"
| "everyEntry [] requested = Inr True"
| "everyEntry ((property, agent) # rest) requested =
     (case hasProperty requested property of
        Inl e \<Rightarrow> Inl e
      | Inr h \<Rightarrow>
          if \<not> h then Inr False
          else (case verifyStamp agent (get requested property) of
                  Inl e \<Rightarrow> Inl e
                | Inr b \<Rightarrow> if b then everyEntry rest requested else Inr False))"

text \<open>
  \<^verbatim>\<open>this.objShape[key]\<close>: an own entry of the shape is an agent; a name the shape
  object inherits is some other value, which is not \<^verbatim>\<open>undefined\<close> and has no method
  \<^verbatim>\<open>makeStampable\<close>; any other name gives \<^verbatim>\<open>undefined\<close>.
\<close>

datatype shape_member = IsUndefined | IsAgent agent | NotAnAgent

definition objShape_get ::
  "(string \<times> agent) list \<Rightarrow> string list \<Rightarrow> string \<Rightarrow> shape_member" where
  "objShape_get objShape inherited key =
     (case map_of objShape key of
        Some a \<Rightarrow> IsAgent a
      | None \<Rightarrow> if key \<in> set inherited then NotAnAgent else IsUndefined)"

text \<open>
  \<^verbatim>\<open>result[key] = value\<close> on the object being built by lodash's \<^verbatim>\<open>mapKeys\<close>: an
  existing key keeps its place and takes the new value.
\<close>

fun assign :: "(string \<times> jsval) list \<Rightarrow> string \<Rightarrow> jsval \<Rightarrow> (string \<times> jsval) list" where
  "assign [] key val = [(key, val)]"
| "assign ((k, x) # rest) key val =
     (if k = key then (k, val) # rest else (k, x) # assign rest key val)"

text \<open>
  lodash's \<^verbatim>\<open>mapKeys(requested, (_, key) => camelCase(key))\<close>; \<^verbatim>\<open>camelCase\<close> is lodash's
  and is taken as the parameter \<open>camelCase\<close> throughout. \<open>mapKeys\<close> makes the
  assignments in the order of the source's keys.
\<close>

fun mapKeys :: "(string \<Rightarrow> string) \<Rightarrow> (string \<times> jsval) list \<Rightarrow> (string \<times> jsval) list
                 \<Rightarrow> (string \<times> jsval) list" where
  "mapKeys camelCase result [] = result"
| "mapKeys camelCase result ((key, val) # rest) =
     mapKeys camelCase (assign result (camelCase key) val) rest"

text \<open>
  An object enumerates its own keys that are array indices first, in ascending order,
  and then its other keys in the order they were created. An array index is the decimal
  spelling of a number below \<open>2\<^sup>3\<^sup>2 - 1\<close>.
\<close>

definition digit_of :: "char \<Rightarrow> nat option" where
  "digit_of c = map_of
     [(CHR ''0'', 0), (CHR ''1'', 1), (CHR ''2'', 2), (CHR ''3'', 3), (CHR ''4'', 4),
      (CHR ''5'', 5), (CHR ''6'', 6), (CHR ''7'', 7), (CHR ''8'', 8), (CHR ''9'', 9)] c"

fun parse_decimal :: "nat \<Rightarrow> string \<Rightarrow> nat option" where
  "parse_decimal acc [] = Some acc"
| "parse_decimal acc (c # cs) =
     (case digit_of c of None \<Rightarrow> None | Some d \<Rightarrow> parse_decimal (10 * acc + d) cs)"

definition array_index :: "string \<Rightarrow> nat option" where
  "array_index key =
     (case parse_decimal 0 key of
        None \<Rightarrow> None
      | Some n \<Rightarrow> if key \<noteq> [] \<and> decimal n = key \<and> n < 4294967295 then Some n else None)"

definition own_property_order :: "(string \<times> jsval) list \<Rightarrow> (string \<times> jsval) list" where
  "own_property_order props =
     sort_key (\<lambda>(key, val). case array_index key of Some n \<Rightarrow> n | None \<Rightarrow> 0)
       (filter (\<lambda>(key, val). array_index key \<noteq> None) props)
     @ filter (\<lambda>(key, val). array_index key = None) props"

text \<open>
  \<^verbatim>\<open>makeStampable\<close> and \<^verbatim>\<open>canStamp\<close>. \<open>mapItems\<close> is \<^verbatim>\<open>requested.map\<close> with the
  callback of \<^verbatim>\<open>ArrayAgent\<close>, \<open>mapFields\<close> is lodash's \<^verbatim>\<open>mapValues\<close> with the callback
  of \<^verbatim>\<open>ObjectAgent\<close>; an exception raised by a callback ends the loop.
\<close>

function makeStampable :: "(string \<Rightarrow> string) \<Rightarrow> agent \<Rightarrow> jsval \<Rightarrow> error + jsval"
  and canStamp :: "(string \<Rightarrow> string) \<Rightarrow> agent \<Rightarrow> jsval \<Rightarrow> error + bool"
  and mapItems :: "(string \<Rightarrow> string) \<Rightarrow> agent \<Rightarrow> jsval list \<Rightarrow> error + jsval list"
  and mapFields :: "(string \<Rightarrow> string) \<Rightarrow> (string \<times> agent) list \<Rightarrow> string list
                     \<Rightarrow> (string \<times> jsval) list \<Rightarrow> error + (string \<times> jsval) list" where
  "makeStampable camelCase StringAgent requested = Inr requested"
| "makeStampable camelCase NumberAgent requested = Inr requested"
| "makeStampable camelCase BooleanAgent requested = Inr requested"
| "makeStampable camelCase NullAgent requested = Inr requested"
| "makeStampable camelCase (EnumAgent enumObj) requested = Inr requested"
| "makeStampable camelCase (UnionAgent u v) requested =
     (case canStamp camelCase u requested of
        Inl e \<Rightarrow> Inl e
      | Inr cu \<Rightarrow>
          if cu then makeStampable camelCase u requested
          else (case canStamp camelCase v requested of
                  Inl e \<Rightarrow> Inl e
                | Inr cv \<Rightarrow>
                    if cv then makeStampable camelCase v requested else Inr requested))"
| "makeStampable camelCase (ArrayAgent itemAgent) requested =
     (case requested of
        JArray xs \<Rightarrow> (case mapItems camelCase itemAgent xs of
                        Inl e \<Rightarrow> Inl e
                      | Inr ys \<Rightarrow> Inr (JArray ys))
      | _ \<Rightarrow> Inr requested)"
| "makeStampable camelCase (ObjectAgent objShape inherited) requested =
     (if typeof requested \<noteq> ''object'' \<or> requested = JPrim Null then Inr (JPrim (Bool False))
      else (case mapFields camelCase objShape inherited (own_entries requested) of
              Inl e \<Rightarrow> Inl e
            | Inr props \<Rightarrow> Inr (plain props)))"
| "makeStampable camelCase (UnsnakeAgent objAgent) requested =
     (if typeof requested \<noteq> ''object'' \<or> requested = JPrim Null then Inr requested
      else makeStampable camelCase objAgent
             (plain (own_property_order (mapKeys camelCase [] (own_entries requested)))))"
| "makeStampable camelCase (ConversionAgent inputAgent converter outputAgent) requested =
     (case verifyStamp inputAgent requested of
        Inl e \<Rightarrow> Inl e
      | Inr b \<Rightarrow> if \<not> b then Inr requested else Inr (converter requested))"
| "canStamp camelCase agent requested =
     (case makeStampable camelCase agent requested of
        Inl e \<Rightarrow> Inl e
      | Inr stampable \<Rightarrow> verifyStamp agent stampable)"
| "mapItems camelCase itemAgent [] = Inr []"
| "mapItems camelCase itemAgent (x # xs) =
     (case makeStampable camelCase itemAgent x of
        Inl e \<Rightarrow> Inl e
      | Inr y \<Rightarrow> (case mapItems camelCase itemAgent xs of
                    Inl e \<Rightarrow> Inl e
                  | Inr ys \<Rightarrow> Inr (y # ys)))"
| "mapFields camelCase objShape inherited [] = Inr []"
| "mapFields camelCase objShape inherited ((key, val) # rest) =
     (case objShape_get objShape inherited key of
        IsUndefined \<Rightarrow>
          (case mapFields camelCase objShape inherited rest of
             Inl e \<Rightarrow> Inl e
           | Inr ys \<Rightarrow> Inr ((key, val) # ys))
      | NotAnAgent \<Rightarrow> Inl (TypeError ''this.objShape[key].makeStampable is not a function'')
      | IsAgent a \<Rightarrow>
          (case makeStampable camelCase a val of
             Inl e \<Rightarrow> Inl e
           | Inr y \<Rightarrow> (case mapFields camelCase objShape inherited rest of
                         Inl e \<Rightarrow> Inl e
                       | Inr ys \<Rightarrow> Inr ((key, y) # ys))))"
  by pat_completeness auto
termination
proof -
  have member_size: "size a < size_list (size_prod (\<lambda>_. 0) size) sh"
    if "objShape_get sh inh key = IsAgent a" for sh inh key a
    using that
    by (induction sh) (auto simp: objShape_get_def split: option.splits if_splits)
  show ?thesis
    by (relation "inv_image (less_than <*lex*> less_than)
          (\<lambda>x. case x of
             Inl (Inl (c, a, r)) \<Rightarrow> (size a, 0)
           | Inl (Inr (c, a, r)) \<Rightarrow> (size a, 1)
           | Inr (Inl (c, a, xs)) \<Rightarrow> (size a, 1 + length xs)
           | Inr (Inr (c, sh, inh, es)) \<Rightarrow>
               (size_list (size_prod (\<lambda>_. 0) size) sh, length es))")
       (auto dest: member_size)
qed

text \<open>
  The template literal of \<^verbatim>\<open>stamp\<close> coerces \<^verbatim>\<open>requested\<close> to a string before the
  \<^verbatim>\<open>Error\<close> is made. That raises a TypeError of its own when an object has no callable
  \<^verbatim>\<open>toString\<close>: the inherited \<^verbatim>\<open>valueOf\<close> returns the object, not a primitive. An
  array is joined, coercing its items. A function found as \<^verbatim>\<open>toString\<close> is taken to
  return a string, as the builtin does.
\<close>

fun coercible :: "jsval \<Rightarrow> bool" and coercible_items :: "jsval list \<Rightarrow> bool" where
  "coercible (JPrim p) = True"
| "coercible (JFunction f) = True"
| "coercible (JArray xs) = coercible_items xs"
| "coercible (JObject own inh) =
     (case map_of (own @ inh) ''toString'' of Some (JFunction f) \<Rightarrow> True | _ \<Rightarrow> False)"
| "coercible_items [] = True"
| "coercible_items (x # xs) = (coercible x \<and> coercible_items xs)"

text \<open>
  \<^verbatim>\<open>throw new Error(`${requested} cannot be stamped by agent ${this}`)\<close>. The message is
  built from \<^verbatim>\<open>requested\<close>; the model keeps the value itself. The coercion of
  \<^verbatim>\<open>this\<close> gives \<^verbatim>\<open>[object Object]\<close> for every agent.
\<close>

definition cannotBeStamped :: "jsval \<Rightarrow> error" where
  "cannotBeStamped requested =
     (if coercible requested then Error requested
      else TypeError ''Cannot convert object to primitive value'')"

text \<open>\<^verbatim>\<open>stamp\<close>: the method of \<^verbatim>\<open>BaseAgent\<close>, overridden by \<^verbatim>\<open>ConversionAgent\<close>.\<close>

fun stamp :: "(string \<Rightarrow> string) \<Rightarrow> agent \<Rightarrow> jsval \<Rightarrow> error + jsval" where
  "stamp camelCase (ConversionAgent inputAgent converter outputAgent) requested =
     (case verifyStamp inputAgent requested of
        Inl e \<Rightarrow> Inl e
      | Inr b \<Rightarrow> if b then Inr (converter requested) else Inl (cannotBeStamped requested))"
| "stamp camelCase agent requested =
     (case makeStampable camelCase agent requested of
        Inl e \<Rightarrow> Inl e
      | Inr stampable \<Rightarrow>
          (case verifyStamp agent stampable of
             Inl e \<Rightarrow> Inl e
           | Inr b \<Rightarrow> if b then Inr stampable else Inl (cannotBeStamped requested)))"

section \<open>Agents that rewrite a value once\<close>


text \<open>
  A converter that is not applied a second time to any effect: whenever the input agent
  verifies a value and verifies the converter's result as well, the converter leaves that
  result unchanged.
\<close>

definition stable_converter :: "agent \<Rightarrow> (jsval \<Rightarrow> jsval) \<Rightarrow> bool" where
  "stable_converter inputAgent converter =
     (\<forall>x. verifyStamp inputAgent x = Inr True
          \<longrightarrow> verifyStamp inputAgent (converter x) = Inr True
          \<longrightarrow> converter (converter x) = converter x)"




section \<open>Properties\<close>

subsection \<open>\<^verbatim>\<open>verifyStamp\<close> never raises\<close>

lemma hasProperty_object:
  "typeof v = ''object'' \<Longrightarrow> v \<noteq> JPrim Null \<Longrightarrow> hasProperty v k = Inr (k \<in> fst ` set (visible v))"
  by (cases v rule: typeof.cases) auto

lemma verifyStamp_total:
  "\<exists>b. verifyStamp a v = Inr b"
  "\<exists>b. everyItem a xs = Inr b"
  "typeof v = ''object'' \<Longrightarrow> v \<noteq> JPrim Null \<Longrightarrow> \<exists>b. everyEntry S v = Inr b"
proof (induction a v and a xs and S v rule: verifyStamp_everyItem_everyEntry.induct)
  case (5 u v requested)
  then show ?case by (auto split: sum.splits)
next
  case (6 itemAgent requested)
  then show ?case by (cases requested) auto
next
  case (12 itemAgent x xs)
  then show ?case by (auto split: sum.splits)
next
  case (14 property agent rest requested)
  have hp: "hasProperty requested property = Inr (property \<in> fst ` set (visible requested))"
    using "14.prems" by (rule hasProperty_object)
  show ?case
  proof (cases "property \<in> fst ` set (visible requested)")
    case False
    with hp show ?thesis by auto
  next
    case True
    from "14.IH"(1) [OF hp] True obtain b where b: "verifyStamp agent (get requested property) = Inr b"
      by auto
    show ?thesis
    proof (cases b)
      case False
      with hp True b show ?thesis by auto
    next
      case bt: True
      from "14.IH"(2) [OF hp _ b bt] True "14.prems" obtain c where "everyEntry rest requested = Inr c"
        by auto
      with hp True b bt show ?thesis by auto
    qed
  qed
qed auto

lemma verifyStamp_not_Inl [simp]: "verifyStamp a v \<noteq> Inl e"
  using verifyStamp_total(1) [of a v] by auto

lemma everyItem_eq: "everyItem a xs = Inr (\<forall>x\<in>set xs. verifyStamp a x = Inr True)"
  by (induction xs) (auto split: sum.splits)

subsection \<open>The agents one by one\<close>

text \<open>
  C7. \<^verbatim>\<open>ArrayAgent.verifyStamp\<close> answers false on anything that is not an array; on an
  array it answers true exactly when \<^verbatim>\<open>itemAgent.verifyStamp\<close> answers true on every
  element, and it never raises; on the empty array it answers true.
\<close>
theorem arrayAgent_verifyStamp:
  "(\<not> isArray v \<longrightarrow> verifyStamp (ArrayAgent itemAgent) v = Inr False)
   \<and> verifyStamp (ArrayAgent itemAgent) (JArray xs)
       = Inr (\<forall>x\<in>set xs. verifyStamp itemAgent x = Inr True)
   \<and> verifyStamp (ArrayAgent itemAgent) (JArray []) = Inr True"
  by (cases v) (simp_all add: everyItem_eq)

theorem arrayAgent_verifyStamp_witness:
  "\<not> isArray (JPrim (Str ''ab''))
   \<and> verifyStamp (ArrayAgent StringAgent) (JPrim (Str ''ab'')) = Inr False
   \<and> verifyStamp (ArrayAgent StringAgent) (JArray [JPrim (Str ''a''), JPrim (Num (Finite 5))])
       = Inr False
   \<and> verifyStamp (ArrayAgent StringAgent) (JArray [JPrim (Str ''a''), JPrim (Str ''b'')])
       = Inr True"
  using arrayAgent_verifyStamp [of "JPrim (Str ''ab'')" StringAgent
          "[JPrim (Str ''a''), JPrim (Num (Finite 5))]"]
        arrayAgent_verifyStamp [of "JPrim (Str ''ab'')" StringAgent
          "[JPrim (Str ''a''), JPrim (Str ''b'')]"]
  by simp

text \<open>
  C8. \<^verbatim>\<open>EnumAgent.verifyStamp\<close> is \<^verbatim>\<open>Object.values(enumObj).includes(requested)\<close>, and
  \<^verbatim>\<open>includes\<close> compares with SameValueZero. On an enum object holding NaN the agent
  recognizes NaN, which is not \<^verbatim>\<open>===\<close> to any value of the enum object.
\<close>
theorem enumAgent_strict_equality_counterexample:
  "verifyStamp (EnumAgent [(''A'', Num NaN)]) (JPrim (Num NaN)) = Inr True
   \<and> Object_values [(''A'', Num NaN)] = [Num NaN]
   \<and> \<not> strictEquals (Num NaN) (Num NaN)"
  by (simp add: Object_values_def sameValueZero_def strictEquals_def)

text \<open>
  C8, as the code has it: \<^verbatim>\<open>EnumAgent.verifyStamp\<close> answers true exactly when the
  candidate is a primitive that is \<^verbatim>\<open>===\<close> to some value (not key) of the enum object,
  or is NaN while the enum object holds NaN.
\<close>
theorem enumAgent_verifyStamp:
  "verifyStamp (EnumAgent enumObj) v
     = Inr (\<exists>x\<in>set (Object_values enumObj). \<exists>p. v = JPrim p
              \<and> (strictEquals x p \<or> (x = Num NaN \<and> p = Num NaN)))"
  by (cases v) (auto simp: list_ex_iff sameValueZero_def strictEquals_def)

theorem enumAgent_verifyStamp_witness:
  "verifyStamp (EnumAgent [(''Red'', Str ''r''), (''Green'', Str ''g'')]) (JPrim (Str ''g''))
     = Inr True
   \<and> verifyStamp (EnumAgent [(''Red'', Str ''r''), (''Green'', Str ''g'')]) (JPrim (Str ''Green''))
     = Inr False"
  using enumAgent_verifyStamp [of "[(''Red'', Str ''r''), (''Green'', Str ''g'')]" "JPrim (Str ''g'')"]
        enumAgent_verifyStamp [of "[(''Red'', Str ''r''), (''Green'', Str ''g'')]" "JPrim (Str ''Green'')"]
  by (simp add: Object_values_def strictEquals_def)

text \<open>
  C1. \<^verbatim>\<open>ConversionAgent.stamp\<close> tests the raw candidate with
  \<^verbatim>\<open>inputAgent.verifyStamp\<close>; when that holds it returns \<^verbatim>\<open>converter(requested)\<close>,
  whatever the output agent is, and otherwise it throws. With a string input agent, a
  number output agent and a converter that sends \<^verbatim>\<open>"3.5"\<close> to \<^verbatim>\<open>3.5\<close>, stamping
  \<^verbatim>\<open>"3.5"\<close> gives \<^verbatim>\<open>3.5\<close> and stamping \<^verbatim>\<open>3.5\<close> throws.
\<close>
theorem conversionAgent_stamp:
  "stamp camelCase (ConversionAgent inputAgent converter outputAgent) v
     = (if verifyStamp inputAgent v = Inr True then Inr (converter v) else Inl (cannotBeStamped v))
   \<and> (converter (JPrim (Str ''3.5'')) = JPrim (Num (Finite 3.5)) \<longrightarrow>
        stamp camelCase (ConversionAgent StringAgent converter NumberAgent) (JPrim (Str ''3.5''))
          = Inr (JPrim (Num (Finite 3.5))))
   \<and> stamp camelCase (ConversionAgent StringAgent converter NumberAgent) (JPrim (Num (Finite 3.5)))
        = Inl (Error (JPrim (Num (Finite 3.5))))"
  by (auto simp: cannotBeStamped_def split: sum.splits)

theorem conversionAgent_stamp_witness:
  "(\<lambda>_. JPrim (Num (Finite 3.5))) (JPrim (Str ''3.5'')) = JPrim (Num (Finite 3.5))
   \<and> stamp (\<lambda>k. k) (ConversionAgent StringAgent (\<lambda>_. JPrim (Num (Finite 3.5))) NumberAgent)
        (JPrim (Str ''3.5'')) = Inr (JPrim (Num (Finite 3.5)))"
  using conversionAgent_stamp [of "\<lambda>k. k" StringAgent "\<lambda>_. JPrim (Num (Finite 3.5))"
          NumberAgent "JPrim (Str ''3.5'')"]
  by simp

text \<open>
  C5. For every agent, \<^verbatim>\<open>canStamp\<close> is \<^verbatim>\<open>verifyStamp\<close> applied to the result of
  \<^verbatim>\<open>makeStampable\<close> (no class overrides it); an exception of \<^verbatim>\<open>makeStampable\<close>
  is an exception of \<^verbatim>\<open>canStamp\<close>.
\<close>
theorem canStamp_makeStampable_verifyStamp:
  "canStamp camelCase agent v
     = (case makeStampable camelCase agent v of
          Inl e \<Rightarrow> Inl e
        | Inr stampable \<Rightarrow> verifyStamp agent stampable)"
  by simp

text \<open>
  C6. \<^verbatim>\<open>UnionAgent.makeStampable\<close> returns the left agent's \<^verbatim>\<open>makeStampable\<close> when
  the left agent can stamp the candidate, else the right agent's when the right agent can,
  else the candidate unchanged; the left agent is asked first, so it wins when both can
  stamp. An exception of a \<^verbatim>\<open>canStamp\<close> call is passed on.
\<close>
theorem unionAgent_makeStampable:
  "(canStamp camelCase u x = Inr True \<longrightarrow>
      makeStampable camelCase (UnionAgent u v) x = makeStampable camelCase u x)
   \<and> (canStamp camelCase u x = Inr False \<and> canStamp camelCase v x = Inr True \<longrightarrow>
      makeStampable camelCase (UnionAgent u v) x = makeStampable camelCase v x)
   \<and> (canStamp camelCase u x = Inr False \<and> canStamp camelCase v x = Inr False \<longrightarrow>
      makeStampable camelCase (UnionAgent u v) x = Inr x)
   \<and> (canStamp camelCase u x = Inl e \<longrightarrow>
      makeStampable camelCase (UnionAgent u v) x = Inl e)
   \<and> (canStamp camelCase u x = Inr False \<and> canStamp camelCase v x = Inl e \<longrightarrow>
      makeStampable camelCase (UnionAgent u v) x = Inl e)"
  by (simp del: canStamp.simps)

theorem unionAgent_makeStampable_witness:
  "canStamp (\<lambda>k. k) (ConversionAgent StringAgent (\<lambda>_. JPrim (Num (Finite 3.5))) NumberAgent)
       (JPrim (Str ''3.5'')) = Inr True
   \<and> canStamp (\<lambda>k. k) StringAgent (JPrim (Str ''3.5'')) = Inr True
   \<and> makeStampable (\<lambda>k. k)
        (UnionAgent (ConversionAgent StringAgent (\<lambda>_. JPrim (Num (Finite 3.5))) NumberAgent)
           StringAgent) (JPrim (Str ''3.5''))
       = Inr (JPrim (Num (Finite 3.5)))
   \<and> canStamp (\<lambda>k. k) NullAgent (JPrim (Str ''a'')) = Inr False
   \<and> makeStampable (\<lambda>k. k) (UnionAgent NullAgent StringAgent) (JPrim (Str ''a''))
       = Inr (JPrim (Str ''a''))
   \<and> canStamp (\<lambda>k. k) NullAgent (JPrim (Bool True)) = Inr False
   \<and> canStamp (\<lambda>k. k) StringAgent (JPrim (Bool True)) = Inr False
   \<and> makeStampable (\<lambda>k. k) (UnionAgent NullAgent StringAgent) (JPrim (Bool True))
       = Inr (JPrim (Bool True))
   \<and> canStamp (\<lambda>k. k) (objectAgent []) (plain [(''constructor'', JPrim Null)])
       = Inl (TypeError ''this.objShape[key].makeStampable is not a function'')
   \<and> makeStampable (\<lambda>k. k) (UnionAgent (objectAgent []) StringAgent)
        (plain [(''constructor'', JPrim Null)])
       = Inl (TypeError ''this.objShape[key].makeStampable is not a function'')
   \<and> canStamp (\<lambda>k. k) NullAgent (plain [(''constructor'', JPrim Null)]) = Inr False
   \<and> makeStampable (\<lambda>k. k) (UnionAgent NullAgent (objectAgent []))
        (plain [(''constructor'', JPrim Null)])
       = Inl (TypeError ''this.objShape[key].makeStampable is not a function'')"
  using unionAgent_makeStampable [of "\<lambda>k. k"
          "ConversionAgent StringAgent (\<lambda>_. JPrim (Num (Finite 3.5))) NumberAgent"
          "JPrim (Str ''3.5'')" StringAgent]
        unionAgent_makeStampable [of "\<lambda>k. k" NullAgent "JPrim (Str ''a'')" StringAgent]
        unionAgent_makeStampable [of "\<lambda>k. k" NullAgent "JPrim (Bool True)" StringAgent]
        unionAgent_makeStampable [of "\<lambda>k. k" "objectAgent []"
          "plain [(''constructor'', JPrim Null)]" StringAgent
          "TypeError ''this.objShape[key].makeStampable is not a function''"]
        unionAgent_makeStampable [of "\<lambda>k. k" NullAgent
          "plain [(''constructor'', JPrim Null)]" "objectAgent []"
          "TypeError ''this.objShape[key].makeStampable is not a function''"]
  by (simp add: objectAgent_def plain_def Object_keys_def Object_prototype_def
        Object_prototype_methods_def objShape_get_def)

text \<open>
  C10. For a \<^verbatim>\<open>ConversionAgent\<close>, a candidate that the output agent verifies and the
  input agent does not is one that \<^verbatim>\<open>canStamp\<close> accepts and \<^verbatim>\<open>stamp\<close> rejects:
  the number \<^verbatim>\<open>3.5\<close> for a conversion from strings to numbers.
\<close>
theorem conversionAgent_canStamp_stamp_disagree:
  "(verifyStamp outputAgent v = Inr True \<and> verifyStamp inputAgent v = Inr False \<longrightarrow>
      canStamp camelCase (ConversionAgent inputAgent converter outputAgent) v = Inr True
      \<and> stamp camelCase (ConversionAgent inputAgent converter outputAgent) v
          = Inl (cannotBeStamped v))
   \<and> canStamp camelCase (ConversionAgent StringAgent converter NumberAgent)
        (JPrim (Num (Finite 3.5))) = Inr True
   \<and> stamp camelCase (ConversionAgent StringAgent converter NumberAgent)
        (JPrim (Num (Finite 3.5))) = Inl (Error (JPrim (Num (Finite 3.5))))"
  by (simp add: cannotBeStamped_def)

theorem conversionAgent_canStamp_stamp_disagree_witness:
  "verifyStamp BooleanAgent (JPrim (Bool True)) = Inr True
   \<and> verifyStamp NullAgent (JPrim (Bool True)) = Inr False
   \<and> canStamp (\<lambda>k. k) (ConversionAgent NullAgent (\<lambda>x. x) BooleanAgent) (JPrim (Bool True))
       = Inr True
   \<and> stamp (\<lambda>k. k) (ConversionAgent NullAgent (\<lambda>x. x) BooleanAgent) (JPrim (Bool True))
       = Inl (Error (JPrim (Bool True)))"
  using conversionAgent_canStamp_stamp_disagree [of BooleanAgent "JPrim (Bool True)" NullAgent
          "\<lambda>k. k" "\<lambda>x. x"]
  by (simp add: cannotBeStamped_def)

text \<open>
  C3. \<^verbatim>\<open>ObjectAgent.makeStampable\<close> returns \<^verbatim>\<open>false\<close>, not the candidate, when the
  candidate is not a non-null object; \<^verbatim>\<open>ArrayAgent\<close> and \<^verbatim>\<open>UnsnakeAgent\<close> return
  such a candidate unchanged.
\<close>
theorem objectAgent_makeStampable_not_object:
  "makeStampable (\<lambda>k. k) (objectAgent [(''title'', StringAgent)]) (JPrim (Str ''abc''))
     = Inr (JPrim (Bool False))
   \<and> makeStampable (\<lambda>k. k) (objectAgent [(''title'', StringAgent)]) (JPrim Null)
     = Inr (JPrim (Bool False))
   \<and> makeStampable (\<lambda>k. k) (ArrayAgent StringAgent) (JPrim (Str ''abc''))
     = Inr (JPrim (Str ''abc''))
   \<and> makeStampable (\<lambda>k. k) (UnsnakeAgent (objectAgent [(''title'', StringAgent)]))
        (JPrim (Str ''abc''))
     = Inr (JPrim (Str ''abc''))"
  by (simp add: objectAgent_def)

text \<open>
  C9. On a candidate with an own key that the shape object inherits from
  \<^verbatim>\<open>Object.prototype\<close>, such as \<^verbatim>\<open>constructor\<close>, the callback of
  \<^verbatim>\<open>ObjectAgent.makeStampable\<close> finds \<^verbatim>\<open>this.objShape[key]\<close> defined and calls its
  missing method \<^verbatim>\<open>makeStampable\<close>: \<^verbatim>\<open>makeStampable\<close>, \<^verbatim>\<open>canStamp\<close> and
  \<^verbatim>\<open>stamp\<close> all raise a TypeError.
\<close>
theorem objectAgent_canStamp_raises:
  "canStamp (\<lambda>k. k) (objectAgent [(''title'', StringAgent)])
      (plain [(''title'', JPrim (Str ''t'')), (''constructor'', JPrim (Num (Finite 1)))])
     = Inl (TypeError ''this.objShape[key].makeStampable is not a function'')
   \<and> makeStampable (\<lambda>k. k) (objectAgent [(''title'', StringAgent)])
      (plain [(''title'', JPrim (Str ''t'')), (''constructor'', JPrim (Num (Finite 1)))])
     = Inl (TypeError ''this.objShape[key].makeStampable is not a function'')
   \<and> stamp (\<lambda>k. k) (objectAgent [(''title'', StringAgent)])
      (plain [(''title'', JPrim (Str ''t'')), (''constructor'', JPrim (Num (Finite 1)))])
     = Inl (TypeError ''this.objShape[key].makeStampable is not a function'')"
  by (simp add: objectAgent_def plain_def Object_keys_def Object_prototype_def
        Object_prototype_methods_def objShape_get_def)

text \<open>
  C2. \<^verbatim>\<open>hasProperty\<close> is the operator \<^verbatim>\<open>in\<close>, which follows the prototype chain: an
  object that only inherits the key \<^verbatim>\<open>a\<close> is verified by an \<^verbatim>\<open>ObjectAgent\<close> whose
  shape declares \<^verbatim>\<open>a\<close>.
\<close>
theorem objectAgent_inherited_counterexample:
  "verifyStamp (objectAgent [(''a'', StringAgent)])
      (JObject [] ((''a'', JPrim (Str ''x'')) # Object_prototype)) = Inr True
   \<and> \<not> hasOwn (JObject [] ((''a'', JPrim (Str ''x'')) # Object_prototype)) ''a''
   \<and> hasProperty (JObject [] ((''a'', JPrim (Str ''x'')) # Object_prototype)) ''a'' = Inr True"
  by (simp add: objectAgent_def hasOwn_def get_def)

lemma everyEntry_missing:
  "typeof v = ''object'' \<Longrightarrow> v \<noteq> JPrim Null \<Longrightarrow> k \<in> fst ` set S
     \<Longrightarrow> k \<notin> fst ` set (visible v) \<Longrightarrow> everyEntry S v = Inr False"
proof (induction S)
  case Nil
  then show ?case by simp
next
  case (Cons e S)
  obtain p a where e: "e = (p, a)" by (cases e)
  obtain b where b: "verifyStamp a (get v p) = Inr b"
    using verifyStamp_total(1) by blast
  show ?case
  proof (cases "p = k")
    case True
    with Cons.prems e show ?thesis by (simp add: hasProperty_object)
  next
    case False
    with Cons.prems e have "everyEntry S v = Inr False"
      by (intro Cons.IH) auto
    with Cons.prems e b show ?thesis by (simp add: hasProperty_object)
  qed
qed

text \<open>
  C2, as the code has it: \<^verbatim>\<open>ObjectAgent.verifyStamp\<close> answers false whenever some key
  of the shape is neither an own property of the candidate nor found on its prototype
  chain, and \<^verbatim>\<open>hasProperty\<close> on an object answers whether the key is own or inherited.
\<close>
theorem objectAgent_verifyStamp_missing_key:
  "(k \<in> fst ` set objShape \<and> k \<notin> fst ` set (visible v) \<longrightarrow>
      verifyStamp (ObjectAgent objShape inherited) v = Inr False)
   \<and> hasProperty (JObject own inh) k = Inr (k \<in> fst ` set own \<or> k \<in> fst ` set inh)
   \<and> visible (JObject own inh) = own @ inh"
proof -
  have "verifyStamp (ObjectAgent objShape inherited) v = Inr False"
    if "k \<in> fst ` set objShape" "k \<notin> fst ` set (visible v)"
  proof (cases "typeof v \<noteq> ''object'' \<or> v = JPrim Null")
    case True
    then show ?thesis by auto
  next
    case False
    with that have "everyEntry objShape v = Inr False"
      by (intro everyEntry_missing) auto
    with False show ?thesis by simp
  qed
  then show ?thesis by (auto simp del: verifyStamp.simps)
qed

theorem objectAgent_verifyStamp_missing_key_witness:
  "''a'' \<in> fst ` set [(''a'', StringAgent)]
   \<and> ''a'' \<notin> fst ` set (visible (plain [(''b'', JPrim (Str ''x''))]))
   \<and> verifyStamp (objectAgent [(''a'', StringAgent)]) (plain [(''b'', JPrim (Str ''x''))])
       = Inr False"
  using objectAgent_verifyStamp_missing_key [of "''a''" "[(''a'', StringAgent)]"
          "plain [(''b'', JPrim (Str ''x''))]" "Object_keys Object_prototype"]
  by (simp add: objectAgent_def plain_def Object_prototype_def Object_prototype_methods_def)

subsection \<open>Applying \<^verbatim>\<open>makeStampable\<close> twice\<close>























text \<open>
  An \<^verbatim>\<open>UnsnakeAgent\<close> applies \<^verbatim>\<open>camelCase\<close> to the keys again on a second pass:
  lodash's \<^verbatim>\<open>camelCase\<close> sends \<^verbatim>\<open>a_b_c\<close> to \<^verbatim>\<open>aBC\<close> and \<^verbatim>\<open>aBC\<close> to \<^verbatim>\<open>aBc\<close>, so
  the second pass renames the key once more.
\<close>

lemma unsnakeAgent_not_idempotent:
  assumes "camelCase ''a_b_c'' = ''aBC''" and "camelCase ''aBC'' = ''aBc''"
  shows "canStamp camelCase (UnsnakeAgent (objectAgent [])) (plain [(''a_b_c'', JPrim Null)])
           = Inr True"
    and "makeStampable camelCase (UnsnakeAgent (objectAgent [])) (plain [(''a_b_c'', JPrim Null)])
           = Inr (plain [(''aBC'', JPrim Null)])"
    and "makeStampable camelCase (UnsnakeAgent (objectAgent [])) (plain [(''aBC'', JPrim Null)])
           = Inr (plain [(''aBc'', JPrim Null)])"
  using assms
  by (simp_all add: objectAgent_def plain_def objShape_get_def own_property_order_def
        array_index_def digit_of_def Object_keys_def Object_prototype_def
        Object_prototype_methods_def)

text \<open>
  A union of two agents that both rewrite can choose differently on the second pass: the
  right agent converts \<^verbatim>\<open>true\<close> to a string, which the left agent then converts to a
  number, although each converter is stable.
\<close>

lemma unionAgent_not_idempotent:
  "stable_converter StringAgent (\<lambda>x. JPrim (Num (Finite 4)))"
  "stable_converter BooleanAgent (\<lambda>x. JPrim (Str ''true''))"
  "canStamp camelCase
     (UnionAgent (ConversionAgent StringAgent (\<lambda>x. JPrim (Num (Finite 4))) NumberAgent)
        (ConversionAgent BooleanAgent (\<lambda>x. JPrim (Str ''true'')) StringAgent))
     (JPrim (Bool True)) = Inr True"
  "makeStampable camelCase
     (UnionAgent (ConversionAgent StringAgent (\<lambda>x. JPrim (Num (Finite 4))) NumberAgent)
        (ConversionAgent BooleanAgent (\<lambda>x. JPrim (Str ''true'')) StringAgent))
     (JPrim (Bool True)) = Inr (JPrim (Str ''true''))"
  "makeStampable camelCase
     (UnionAgent (ConversionAgent StringAgent (\<lambda>x. JPrim (Num (Finite 4))) NumberAgent)
        (ConversionAgent BooleanAgent (\<lambda>x. JPrim (Str ''true'')) StringAgent))
     (JPrim (Str ''true'')) = Inr (JPrim (Num (Finite 4)))"
  by (simp_all add: stable_converter_def)



end
